theory Spec2Isabelle
  imports Main "HOL-Library.Word" "HOL-Library.Multiset" "HOL-Library.List_Lexorder"
begin

section \<open>Data model of \<^verbatim>\<open>types.go\<close>\<close>

text \<open>
  Go's \<^verbatim>\<open>byte\<close> is an unsigned 8-bit integer, \<^verbatim>\<open>abi.SectorNumber\<close> is \<^verbatim>\<open>uint64\<close>,
  \<^verbatim>\<open>abi.RegisteredPoStProof\<close> and \<^verbatim>\<open>abi.RegisteredSealProof\<close> are \<^verbatim>\<open>int64\<close>.
  A Go string is an immutable sequence of bytes; \<^verbatim>\<open>cid.Cid\<close> is a struct with the one
  field \<^verbatim>\<open>str string\<close>, and \<^verbatim>\<open>Bytes()\<close> returns \<^verbatim>\<open>[]byte(c.str)\<close>.
\<close>

type_synonym byte = "8 word"

record Cid =
  str :: "byte list"

definition Bytes :: "Cid \<Rightarrow> byte list" where
  "Bytes c = str c"

text \<open>\<^verbatim>\<open>type publicSectorInfo struct { PoStProofType; SealedCID; SectorNum }\<close>\<close>

record publicSectorInfo =
  PoStProofType :: "64 word"
  SealedCID :: Cid
  SectorNum :: "64 word"

text \<open>
  \<^verbatim>\<open>proof.SectorInfo\<close> (package specs-actors) is
  \<^verbatim>\<open>struct { SealProof abi.RegisteredSealProof; SectorNumber abi.SectorNumber; SealedCID cid.Cid }\<close>.
  \<^verbatim>\<open>PrivateSectorInfo\<close> embeds it, so its fields are promoted: the record extends it.
\<close>

record SectorInfo =
  SealProof :: "64 word"
  SectorNumber :: "64 word"
  SealedCID :: Cid

record PrivateSectorInfo = SectorInfo +
  CacheDirPath :: string
  PoStProofType :: "64 word"
  SealedSectorPath :: string

subsection \<open>Slices and their backing arrays\<close>

text \<open>
  A Go slice is a header (pointer into a backing array, length, capacity); several
  headers may share one array. The store is the list of all arrays allocated so far, an
  array's address is its position in that list. A header names its array, the offset of
  its element 0 in that array, its length and its capacity.
\<close>

type_synonym 'a heap = "'a list list"

record slice =
  sl_arr :: nat
  sl_off :: nat
  sl_len :: nat
  sl_cap :: nat

text \<open>The sequence of elements a slice shows: \<^verbatim>\<open>s[0], ..., s[len(s)-1]\<close>.\<close>

definition elems :: "'a heap \<Rightarrow> slice \<Rightarrow> 'a list" where
  "elems h s = take (sl_len s) (drop (sl_off s) (h ! sl_arr s))"

text \<open>
  A header is well formed in a store when its length does not exceed its capacity and,
  unless the capacity is 0, its window lies inside its array. The \<^verbatim>\<open>nil\<close> slice has
  length 0 and capacity 0 and no array; it is well formed in every store.
\<close>

definition wf_slice :: "'a heap \<Rightarrow> slice \<Rightarrow> bool" where
  "wf_slice h s \<longleftrightarrow>
     sl_len s \<le> sl_cap s \<and>
     (sl_cap s = 0 \<or>
      sl_arr s < length h \<and> sl_off s + sl_cap s \<le> length (h ! sl_arr s))"

definition nil_slice :: slice where
  "nil_slice = \<lparr>sl_arr = 0, sl_off = 0, sl_len = 0, sl_cap = 0\<rparr>"

text \<open>
  \<^verbatim>\<open>s[i]\<close> read and written. Every use below has \<open>i < len(s)\<close> by the bounds of the
  loop it stands in, so the bounds check of the Go runtime never fires there.
\<close>

definition index :: "'a heap \<Rightarrow> slice \<Rightarrow> nat \<Rightarrow> 'a" where
  "index h s i = h ! sl_arr s ! (sl_off s + i)"

definition store :: "'a heap \<Rightarrow> slice \<Rightarrow> nat \<Rightarrow> 'a \<Rightarrow> 'a heap" where
  "store h s i v = h[sl_arr s := (h ! sl_arr s)[sl_off s + i := v]]"

text \<open>\<^verbatim>\<open>make([]T, 0)\<close>: a fresh slice of length 0 and capacity 0.\<close>

definition make0 :: "'a heap \<Rightarrow> 'a heap \<times> slice" where
  "make0 h = (h @ [[]], \<lparr>sl_arr = length h, sl_off = 0, sl_len = 0, sl_cap = 0\<rparr>)"

text \<open>
  The runtime panic of an out-of-range slice expression. For a slice operand the upper
  bound of \<^verbatim>\<open>s[lo:hi]\<close> is the capacity, not the length:
  the indices are in range iff \<open>0 \<le> lo \<le> hi \<le> cap(s)\<close>. The indices are Go \<^verbatim>\<open>int\<close>s.
\<close>

datatype panic = SliceBoundsOutOfRange

definition slice_expr :: "slice \<Rightarrow> int \<Rightarrow> int \<Rightarrow> panic + slice" where
  "slice_expr s lo hi =
     (if 0 \<le> lo \<and> lo \<le> hi \<and> hi \<le> int (sl_cap s)
      then Inr \<lparr>sl_arr = sl_arr s, sl_off = sl_off s + nat lo,
                sl_len = nat (hi - lo), sl_cap = sl_cap s - nat lo\<rparr>
      else Inl SliceBoundsOutOfRange)"

text \<open>
  \<^verbatim>\<open>append(s, xs...)\<close>. When the capacity suffices, the new elements are written into
  the array of \<open>s\<close> behind its last element and the result shares that array. Otherwise
  a new array is allocated that holds the elements of \<open>s\<close>, then \<open>xs\<close>, then the spare
  cells the runtime adds when it rounds the allocation up. How many spare cells there
  are is left to the implementation by the language: \<open>grow c n\<close> is the list of spare
  cells for old capacity \<open>c\<close> and needed length \<open>n\<close>.
\<close>

definition go_append :: "(nat \<Rightarrow> nat \<Rightarrow> 'a list) \<Rightarrow> 'a heap \<Rightarrow> slice \<Rightarrow> 'a list \<Rightarrow> 'a heap \<times> slice" where
  "go_append grow h s xs =
     (let n = sl_len s + length xs; a = h ! sl_arr s in
      if n \<le> sl_cap s
      then (h[sl_arr s := take (sl_off s + sl_len s) a @ xs @ drop (sl_off s + n) a],
            s\<lparr>sl_len := n\<rparr>)
      else (h @ [elems h s @ xs @ grow (sl_cap s) n],
            \<lparr>sl_arr = length h, sl_off = 0, sl_len = n,
             sl_cap = n + length (grow (sl_cap s) n)\<rparr>))"

subsection \<open>The sorted collections\<close>

text \<open>
  \<^verbatim>\<open>type SortedPublicSectorInfo struct { f []publicSectorInfo }\<close> and
  \<^verbatim>\<open>type SortedPrivateSectorInfo struct { f []PrivateSectorInfo }\<close>. Both structs name
  their field \<^verbatim>\<open>f\<close>; the two selectors are told apart by a prefix.
\<close>

record SortedPublicSectorInfo =
  public_f :: slice

record SortedPrivateSectorInfo =
  private_f :: slice

text \<open>\<^verbatim>\<open>func (s *SortedPublicSectorInfo) Values() []publicSectorInfo { return s.f }\<close>\<close>

definition SortedPublicSectorInfo_Values :: "SortedPublicSectorInfo \<Rightarrow> slice" where
  "SortedPublicSectorInfo_Values s = public_f s"

text \<open>\<^verbatim>\<open>func (s *SortedPrivateSectorInfo) Values() []PrivateSectorInfo { return s.f }\<close>\<close>

definition SortedPrivateSectorInfo_Values :: "SortedPrivateSectorInfo \<Rightarrow> slice" where
  "SortedPrivateSectorInfo_Values s = private_f s"

section \<open>\<^verbatim>\<open>NewSortedPrivateSectorInfo\<close>\<close>

text \<open>
  The inner loop \<^verbatim>\<open>for j := range remove_duplicate_privSector\<close>. Go evaluates the range
  expression once, before the first iteration: the indices \<open>js\<close> run over the length the
  accumulator had when the loop was entered, while the body reads and appends to the
  accumulator as it is now.
\<close>

fun dedup_inner ::
  "(nat \<Rightarrow> nat \<Rightarrow> PrivateSectorInfo list) \<Rightarrow> slice \<Rightarrow> nat \<Rightarrow> nat list \<Rightarrow>
   PrivateSectorInfo heap \<times> slice \<Rightarrow> PrivateSectorInfo heap \<times> slice" where
  "dedup_inner grow sectorInfo i [] (h, acc) = (h, acc)"
| "dedup_inner grow sectorInfo i (j # js) (h, acc) =
     dedup_inner grow sectorInfo i js
       (if \<not> (SectorNumber (index h acc j) = SectorNumber (index h sectorInfo i))
        then go_append grow h acc [index h sectorInfo i]
        else (h, acc))"

text \<open>The outer loop \<^verbatim>\<open>for i := range sectorInfo\<close>.\<close>

fun dedup_outer ::
  "(nat \<Rightarrow> nat \<Rightarrow> PrivateSectorInfo list) \<Rightarrow> slice \<Rightarrow> nat list \<Rightarrow>
   PrivateSectorInfo heap \<times> slice \<Rightarrow> PrivateSectorInfo heap \<times> slice" where
  "dedup_outer grow sectorInfo [] (h, acc) = (h, acc)"
| "dedup_outer grow sectorInfo (i # is) (h, acc) =
     dedup_outer grow sectorInfo is
       (dedup_inner grow sectorInfo i [0..<sl_len acc] (h, acc))"

text \<open>
  The exchange sort. \<open>sort_inner\<close> is the loop
  \<^verbatim>\<open>for j := 0; j < new_sector_len-i-1; j++\<close> with its bound \<open>m\<close>; it swaps neighbours
  that are out of order and raises the flag. \<open>sort_outer\<close> is the loop over \<open>i\<close>, left
  by \<^verbatim>\<open>break\<close> after a pass without a swap. Inside the outer loop \<open>i < new_sector_len\<close>,
  so the bound \<open>new_sector_len - i - 1\<close> is not negative.
\<close>

definition swap :: "'a heap \<Rightarrow> slice \<Rightarrow> nat \<Rightarrow> nat \<Rightarrow> 'a heap" where
  "swap h s i j = store (store h s i (index h s j)) s j (index h s i)"

function sort_inner ::
  "slice \<Rightarrow> nat \<Rightarrow> nat \<Rightarrow> PrivateSectorInfo heap \<times> bool \<Rightarrow> PrivateSectorInfo heap \<times> bool" where
  "sort_inner acc m j (h, flag) =
     (if j < m
      then sort_inner acc m (j + 1)
             (if SectorNumber (index h acc j) > SectorNumber (index h acc (j + 1))
              then (swap h acc j (j + 1), True)
              else (h, flag))
      else (h, flag))"
  by pat_completeness auto
termination
  by (relation "measure (\<lambda>(acc, m, j, hf). m - j)") auto

function sort_outer :: "slice \<Rightarrow> nat \<Rightarrow> nat \<Rightarrow> PrivateSectorInfo heap \<Rightarrow> PrivateSectorInfo heap" where
  "sort_outer acc new_sector_len i h =
     (if i < new_sector_len
      then (case sort_inner acc (new_sector_len - i - 1) 0 (h, False) of
              (h', flag) \<Rightarrow> if \<not> flag then h' else sort_outer acc new_sector_len (i + 1) h')
      else h)"
  by pat_completeness auto
termination
  by (relation "measure (\<lambda>(acc, n, i, h). n - i)") auto

text \<open>
  The function takes the store and the header of its variadic argument and returns the
  new store and the collection.
\<close>

definition NewSortedPrivateSectorInfo ::
  "(nat \<Rightarrow> nat \<Rightarrow> PrivateSectorInfo list) \<Rightarrow> PrivateSectorInfo heap \<Rightarrow> slice \<Rightarrow>
   PrivateSectorInfo heap \<times> SortedPrivateSectorInfo" where
  "NewSortedPrivateSectorInfo grow h sectorInfo =
     (case dedup_outer grow sectorInfo [0..<sl_len sectorInfo] (make0 h) of
        (h1, remove_duplicate_privSector) \<Rightarrow>
          let new_sector_len = sl_len remove_duplicate_privSector in
          if new_sector_len < 2
          then (h1, \<lparr>private_f = remove_duplicate_privSector\<rparr>)
          else (sort_outer remove_duplicate_privSector new_sector_len 0 h1,
                \<lparr>private_f = remove_duplicate_privSector\<rparr>))"

section \<open>\<^verbatim>\<open>newSortedPublicSectorInfo\<close>\<close>

text \<open>
  \<^verbatim>\<open>bytes.Compare\<close> of the Go standard library, as its documentation defines it: the
  lexicographic comparison of two byte slices, \<open>-1\<close> when the first is smaller, \<open>0\<close>
  when they are equal, \<open>1\<close> when the first is larger. Bytes compare unsigned.
\<close>

fun bytes_Compare :: "byte list \<Rightarrow> byte list \<Rightarrow> int" where
  "bytes_Compare [] [] = 0"
| "bytes_Compare [] (y # ys) = - 1"
| "bytes_Compare (x # xs) [] = 1"
| "bytes_Compare (x # xs) (y # ys) =
     (if x < y then - 1 else if y < x then 1 else bytes_Compare xs ys)"

text \<open>The sort key of a record: \<^verbatim>\<open>x.SealedCID.Bytes()\<close>.\<close>

definition cid_bytes :: "publicSectorInfo \<Rightarrow> byte list" where
  "cid_bytes a = Bytes (publicSectorInfo.SealedCID a)"

text \<open>
  The closure \<^verbatim>\<open>fn\<close>. In the source it takes two positions and compares the records
  that stand there at the moment of the call; here it takes the two records.
\<close>

definition fn :: "publicSectorInfo \<Rightarrow> publicSectorInfo \<Rightarrow> bool" where
  "fn a b \<longleftrightarrow> bytes_Compare (cid_bytes a) (cid_bytes b) = - 1"

text \<open>
  \<^verbatim>\<open>sort.Slice(x, less)\<close> of the Go standard library sorts the elements of \<open>x\<close> in
  place, in the array of \<open>x\<close>. Its algorithm is not part of this repository and differs
  between Go releases; it enters as the parameter \<open>srt\<close>, the function from the
  comparison and the sequence of elements to the sequence it leaves behind.
\<close>

definition sort_Slice ::
  "(('a \<Rightarrow> 'a \<Rightarrow> bool) \<Rightarrow> 'a list \<Rightarrow> 'a list) \<Rightarrow> 'a heap \<Rightarrow> slice \<Rightarrow> ('a \<Rightarrow> 'a \<Rightarrow> bool) \<Rightarrow> 'a heap" where
  "sort_Slice srt h x lt =
     h[sl_arr x := take (sl_off x) (h ! sl_arr x) @ srt lt (elems h x) @
                   drop (sl_off x + sl_len x) (h ! sl_arr x)]"

text \<open>
  What the documentation of \<^verbatim>\<open>sort.Slice\<close> promises for a comparison \<open>less\<close>: the
  elements are rearranged, none lost and none added, and afterwards no later element is
  \<open>less\<close> than an earlier one. Stability is not promised.
\<close>

definition sorts :: "(('a \<Rightarrow> 'a \<Rightarrow> bool) \<Rightarrow> 'a list \<Rightarrow> 'a list) \<Rightarrow> ('a \<Rightarrow> 'a \<Rightarrow> bool) \<Rightarrow> bool" where
  "sorts srt lt \<longleftrightarrow>
     (\<forall>xs. mset (srt lt xs) = mset xs \<and> sorted_wrt (\<lambda>a b. \<not> lt b a) (srt lt xs))"

text \<open>
  The slice expression \<^verbatim>\<open>sectorInfo[:]\<close> is the slice \<^verbatim>\<open>sectorInfo\<close> itself. The returned
  collection holds the header it was given: it shares the array of the caller.
\<close>

definition newSortedPublicSectorInfo ::
  "((publicSectorInfo \<Rightarrow> publicSectorInfo \<Rightarrow> bool) \<Rightarrow> publicSectorInfo list \<Rightarrow> publicSectorInfo list) \<Rightarrow>
   publicSectorInfo heap \<Rightarrow> slice \<Rightarrow> publicSectorInfo heap \<times> SortedPublicSectorInfo" where
  "newSortedPublicSectorInfo srt h sectorInfo =
     (sort_Slice srt h sectorInfo fn, \<lparr>public_f = sectorInfo\<rparr>)"

text \<open>
  One function that meets the promise of \<^verbatim>\<open>sort.Slice\<close>: an insertion sort by \<open>less\<close>.
\<close>

fun insert_less :: "('a \<Rightarrow> 'a \<Rightarrow> bool) \<Rightarrow> 'a \<Rightarrow> 'a list \<Rightarrow> 'a list" where
  "insert_less lt x [] = [x]"
| "insert_less lt x (y # ys) =
     (if lt x y then x # y # ys else y # insert_less lt x ys)"

fun insertion_sort :: "('a \<Rightarrow> 'a \<Rightarrow> bool) \<Rightarrow> 'a list \<Rightarrow> 'a list" where
  "insertion_sort lt [] = []"
| "insertion_sort lt (x # xs) = insert_less lt x (insertion_sort lt xs)"

text \<open>The records of the scenario: content identifiers \<open>a\<close>, \<open>b\<close> and \<open>c\<close>.\<close>

definition public_of :: "byte list \<Rightarrow> publicSectorInfo" where
  "public_of bs = \<lparr>publicSectorInfo.PoStProofType = 0,
                   publicSectorInfo.SealedCID = \<lparr>str = bs\<rparr>, SectorNum = 0\<rparr>"

definition id_a :: "byte list" where "id_a = [0x61]"
definition id_b :: "byte list" where "id_b = [0x62]"
definition id_c :: "byte list" where "id_c = [0x63]"

definition heap_bac :: "publicSectorInfo heap" where
  "heap_bac = [[public_of id_b, public_of id_a, public_of id_c]]"

definition slice_of_3 :: slice where
  "slice_of_3 = \<lparr>sl_arr = 0, sl_off = 0, sl_len = 3, sl_cap = 3\<rparr>"

section \<open>\<^verbatim>\<open>SplitSortedPrivateSectorInfo\<close>\<close>

text \<open>
  Go's \<^verbatim>\<open>error\<close> interface; \<^verbatim>\<open>nil\<close> is \<open>None\<close>. The two values are the error kinds
  the specification names. \<^verbatim>\<open>types.go\<close> constructs neither.
\<close>

datatype error = RangeError | DecodeError

text \<open>
  The function makes an empty slice, evaluates the slice expression
  \<^verbatim>\<open>sortPrivSectors.f[start:end]\<close> with no check of its own, appends the elements of the
  sub-slice to the empty slice and returns the result with a \<^verbatim>\<open>nil\<close> error. The context
  argument is not used. A panic unwinds the call: no collection comes back, and the store
  stays as it was when the panic was raised.
\<close>

definition SplitSortedPrivateSectorInfo ::
  "(nat \<Rightarrow> nat \<Rightarrow> PrivateSectorInfo list) \<Rightarrow> 'ctx \<Rightarrow> PrivateSectorInfo heap \<Rightarrow>
   SortedPrivateSectorInfo \<Rightarrow> int \<Rightarrow> int \<Rightarrow>
   (panic \<times> PrivateSectorInfo heap) +
   (PrivateSectorInfo heap \<times> SortedPrivateSectorInfo \<times> error option)" where
  "SplitSortedPrivateSectorInfo grow ctx h sortPrivSectors start end' =
     (case make0 h of
        (h0, new_f) \<Rightarrow>
          (case slice_expr (private_f sortPrivSectors) start end' of
             Inl p \<Rightarrow> Inl (p, h0)
           | Inr sub \<Rightarrow>
               (case go_append grow h0 new_f (elems h0 sub) of
                  (h1, new_f') \<Rightarrow> Inr (h1, \<lparr>private_f = new_f'\<rparr>, None))))"

text \<open>A call returns the error \<open>e\<close>: it comes back, and its second result is \<open>e\<close>.\<close>

definition returns_error :: "'p + ('h \<times> 'c \<times> error option) \<Rightarrow> error \<Rightarrow> bool" where
  "returns_error r e = (case r of Inl p \<Rightarrow> False | Inr (h, c, err) \<Rightarrow> err = Some e)"

text \<open>
  The collection of five records used in the scenarios: sector numbers 10 to 14 in one
  array of length five, the header showing all of it.
\<close>

definition sector :: "64 word \<Rightarrow> PrivateSectorInfo" where
  "sector n = \<lparr>SealProof = 0, SectorNumber = n, SealedCID = \<lparr>str = []\<rparr>,
               CacheDirPath = [], PoStProofType = 0, SealedSectorPath = []\<rparr>"

definition heap_of_5 :: "PrivateSectorInfo heap" where
  "heap_of_5 = [[sector 10, sector 11, sector 12, sector 13, sector 14]]"

definition collection_of_5 :: SortedPrivateSectorInfo where
  "collection_of_5 = \<lparr>private_f = \<lparr>sl_arr = 0, sl_off = 0, sl_len = 5, sl_cap = 5\<rparr>\<rparr>"

text \<open>The first three of the five records: a slice of length 3 and capacity 5.\<close>

definition collection_3_of_5 :: SortedPrivateSectorInfo where
  "collection_3_of_5 = \<lparr>private_f = \<lparr>sl_arr = 0, sl_off = 0, sl_len = 3, sl_cap = 5\<rparr>\<rparr>"

definition no_spare :: "nat \<Rightarrow> nat \<Rightarrow> 'a list" where
  "no_spare c n = []"

text \<open>
  Two records that share sector number 7 and differ in their cache directory, in one
  array; and a single record with sector number 1.
\<close>

definition heap_7_7 :: "PrivateSectorInfo heap" where
  "heap_7_7 = [[(sector 7)\<lparr>CacheDirPath := ''first''\<rparr>, (sector 7)\<lparr>CacheDirPath := ''second''\<rparr>]]"

definition slice_of_2 :: slice where
  "slice_of_2 = \<lparr>sl_arr = 0, sl_off = 0, sl_len = 2, sl_cap = 2\<rparr>"

definition heap_1 :: "PrivateSectorInfo heap" where
  "heap_1 = [[sector 1]]"

definition slice_of_1 :: slice where
  "slice_of_1 = \<lparr>sl_arr = 0, sl_off = 0, sl_len = 1, sl_cap = 1\<rparr>"

section \<open>\<^verbatim>\<open>UnmarshalJSON\<close>\<close>

text \<open>
  Both methods are the one call \<^verbatim>\<open>json.Unmarshal(b, &s.f)\<close>. The decoder of the Go
  standard library is not part of this repository; it enters as the parameter
  \<open>json_Unmarshal\<close>. Given the bytes, the store and the header that the pointer
  \<^verbatim>\<open>&s.f\<close> points to, it yields the store after decoding, the header it has written
  through the pointer, and its error.
\<close>

definition SortedPublicSectorInfo_UnmarshalJSON ::
  "(byte list \<Rightarrow> publicSectorInfo heap \<Rightarrow> slice \<Rightarrow> publicSectorInfo heap \<times> slice \<times> error option) \<Rightarrow>
   publicSectorInfo heap \<Rightarrow> SortedPublicSectorInfo \<Rightarrow> byte list \<Rightarrow>
   publicSectorInfo heap \<times> SortedPublicSectorInfo \<times> error option" where
  "SortedPublicSectorInfo_UnmarshalJSON json_Unmarshal h s b =
     (case json_Unmarshal b h (public_f s) of
        (h', v, err) \<Rightarrow> (h', s\<lparr>public_f := v\<rparr>, err))"

definition SortedPrivateSectorInfo_UnmarshalJSON ::
  "(byte list \<Rightarrow> PrivateSectorInfo heap \<Rightarrow> slice \<Rightarrow> PrivateSectorInfo heap \<times> slice \<times> error option) \<Rightarrow>
   PrivateSectorInfo heap \<Rightarrow> SortedPrivateSectorInfo \<Rightarrow> byte list \<Rightarrow>
   PrivateSectorInfo heap \<times> SortedPrivateSectorInfo \<times> error option" where
  "SortedPrivateSectorInfo_UnmarshalJSON json_Unmarshal h s b =
     (case json_Unmarshal b h (private_f s) of
        (h', v, err) \<Rightarrow> (h', s\<lparr>private_f := v\<rparr>, err))"

section \<open>Properties\<close>

lemma wf_nil_slice: "wf_slice h nil_slice"
  by (simp add: wf_slice_def nil_slice_def)

lemma dedup_outer_empty:
  "sl_len acc = 0 \<Longrightarrow> dedup_outer grow sectorInfo is (h, acc) = (h, acc)"
  by (induction "is") simp_all

lemma dedup_outer_make0:
  "dedup_outer grow sectorInfo is (make0 h) = make0 h"
  by (simp add: make0_def dedup_outer_empty)

lemma NewSortedPrivateSectorInfo_eq:
  "NewSortedPrivateSectorInfo grow h sectorInfo =
     (h @ [[]], \<lparr>private_f = \<lparr>sl_arr = length h, sl_off = 0, sl_len = 0, sl_cap = 0\<rparr>\<rparr>)"
  unfolding NewSortedPrivateSectorInfo_def dedup_outer_make0
  by (simp add: make0_def)

text \<open>
  Claim C2. For every input, \<^verbatim>\<open>NewSortedPrivateSectorInfo\<close> returns a collection whose
  \<^verbatim>\<open>Values()\<close> is the empty sequence: the accumulator starts empty, the inner loop that
  guards every append runs zero times, nothing is appended. The only change to the store
  is the empty array of the \<^verbatim>\<open>make\<close>.
\<close>

theorem NewSortedPrivateSectorInfo_always_empty:
  "(case NewSortedPrivateSectorInfo grow h sectorInfo of
      (h', c) \<Rightarrow> elems h' (SortedPrivateSectorInfo_Values c) = [] \<and> h' = h @ [[]])"
  by (simp add: NewSortedPrivateSectorInfo_eq elems_def SortedPrivateSectorInfo_Values_def)

text \<open>
  Claim C6. Whatever the input, no two values of the collection built by
  \<^verbatim>\<open>NewSortedPrivateSectorInfo\<close> share a sector number.
\<close>

theorem NewSortedPrivateSectorInfo_distinct:
  "(case NewSortedPrivateSectorInfo grow h sectorInfo of
      (h', c) \<Rightarrow> distinct (map SectorNumber (elems h' (SortedPrivateSectorInfo_Values c))))"
  by (simp add: NewSortedPrivateSectorInfo_eq elems_def SortedPrivateSectorInfo_Values_def)

text \<open>
  Claim C1 at the input of its scenario: two records with sector number 7. The code
  returns no record at all, so the collection holds no record with sector number 7
  where the claim expects exactly one.
\<close>

theorem NewSortedPrivateSectorInfo_sector_7_lost:
  "(case NewSortedPrivateSectorInfo no_spare heap_7_7 slice_of_2 of
      (h', c) \<Rightarrow>
        elems h' (SortedPrivateSectorInfo_Values c) = [] \<and>
        length (filter (\<lambda>r. SectorNumber r = 7) (elems h' (SortedPrivateSectorInfo_Values c))) = 0)"
  by (simp add: NewSortedPrivateSectorInfo_def make0_def slice_of_2_def upt_rec
      elems_def SortedPrivateSectorInfo_Values_def)

text \<open>
  Claim C8 at a sorted input without duplicates, the single record with sector number 1:
  the private build returns the empty collection, not the input.
\<close>

theorem NewSortedPrivateSectorInfo_sorted_input_lost:
  "(case NewSortedPrivateSectorInfo no_spare heap_1 slice_of_1 of
      (h', c) \<Rightarrow>
        elems heap_1 slice_of_1 = [sector 1] \<and>
        elems h' (SortedPrivateSectorInfo_Values c) = [])"
  by (simp add: NewSortedPrivateSectorInfo_def make0_def slice_of_1_def heap_1_def upt_rec
      elems_def SortedPrivateSectorInfo_Values_def)

subsection \<open>Splitting\<close>

lemma elems_heap_append:
  "wf_slice h s \<Longrightarrow> elems (h @ hs) s = elems h s"
  by (auto simp: elems_def wf_slice_def nth_append)

lemma length_elems:
  "wf_slice h s \<Longrightarrow> length (elems h s) = sl_len s"
  unfolding elems_def wf_slice_def by auto

lemma elems_slice_expr:
  assumes "0 \<le> lo" "lo \<le> hi" "hi \<le> int (sl_len s)" "sl_len s \<le> sl_cap s"
  shows "\<exists>sub. slice_expr s lo hi = Inr sub \<and>
           elems h sub = take (nat (hi - lo)) (drop (nat lo) (elems h s))"
proof -
  have m: "min (nat (hi - lo)) (sl_len s - nat lo) = nat (hi - lo)"
    using assms by linarith
  have "take (nat (hi - lo)) (drop (nat lo) (take (sl_len s) (drop (sl_off s) (h ! sl_arr s))))
        = take (nat (hi - lo)) (drop (sl_off s + nat lo) (h ! sl_arr s))"
    by (simp add: drop_take m add.commute)
  with assms show ?thesis
    by (simp add: slice_expr_def elems_def)
qed

lemma go_append_fresh:
  "go_append grow (h @ [[]]) \<lparr>sl_arr = length h, sl_off = 0, sl_len = 0, sl_cap = 0\<rparr> xs = (h', r)
   \<Longrightarrow> elems h' r = xs \<and> take (length h) h' = h \<and> length h \<le> sl_arr r"
  by (cases xs) (auto simp: go_append_def elems_def Let_def nth_append)

text \<open>
  Claim C3, as stated, fails: on the collection of five records, \<open>start = 4\<close> and
  \<open>end = 2\<close> end in the runtime panic of the slice expression, and no \<open>RangeError\<close> is
  returned.
\<close>

theorem Split_RangeError_counterexample:
  "SplitSortedPrivateSectorInfo no_spare () heap_of_5 collection_of_5 4 2
     = Inl (SliceBoundsOutOfRange, heap_of_5 @ [[]]) \<and>
   \<not> returns_error
       (SplitSortedPrivateSectorInfo no_spare () heap_of_5 collection_of_5 4 2) RangeError"
  by (simp add: SplitSortedPrivateSectorInfo_def make0_def slice_expr_def collection_of_5_def
      returns_error_def)

text \<open>
  Claim C3, amended. For every pair of indices with \<open>start < 0\<close>, \<open>end\<close> above the
  capacity of the source slice, or \<open>start > end\<close>, \<^verbatim>\<open>SplitSortedPrivateSectorInfo\<close> does not
  return: it panics with the slice-bounds error of the Go runtime, so no error value,
  and no \<open>RangeError\<close>, comes back. When the panic is raised nothing has been copied or
  written: the store is the store of the call followed by the empty array of the
  \<^verbatim>\<open>make\<close>.
\<close>

theorem Split_panics_out_of_range:
  assumes "start < 0 \<or> int (sl_cap (SortedPrivateSectorInfo_Values c)) < end' \<or> end' < start"
  shows "SplitSortedPrivateSectorInfo grow ctx h c start end'
           = Inl (SliceBoundsOutOfRange, h @ [[]]) \<and>
         \<not> returns_error (SplitSortedPrivateSectorInfo grow ctx h c start end') e"
  using assms
  by (auto simp: SplitSortedPrivateSectorInfo_def make0_def slice_expr_def returns_error_def
      SortedPrivateSectorInfo_Values_def)

theorem Split_panics_out_of_range_witness:
  "SplitSortedPrivateSectorInfo no_spare () heap_of_5 collection_of_5 4 2
     = Inl (SliceBoundsOutOfRange, heap_of_5 @ [[]]) \<and>
   SplitSortedPrivateSectorInfo no_spare () heap_of_5 collection_of_5 (- 1) 2
     = Inl (SliceBoundsOutOfRange, heap_of_5 @ [[]]) \<and>
   SplitSortedPrivateSectorInfo no_spare () heap_of_5 collection_of_5 2 6
     = Inl (SliceBoundsOutOfRange, heap_of_5 @ [[]]) \<and>
   SplitSortedPrivateSectorInfo no_spare () heap_of_5 collection_3_of_5 0 6
     = Inl (SliceBoundsOutOfRange, heap_of_5 @ [[]])"
proof -
  have c5: "sl_cap (SortedPrivateSectorInfo_Values collection_of_5) = 5"
    by (simp add: collection_of_5_def SortedPrivateSectorInfo_Values_def)
  have c3: "sl_cap (SortedPrivateSectorInfo_Values collection_3_of_5) = 5"
    by (simp add: collection_3_of_5_def SortedPrivateSectorInfo_Values_def)
  show ?thesis
    using Split_panics_out_of_range [of 4 collection_of_5 2 no_spare "()" heap_of_5 RangeError]
      Split_panics_out_of_range [of "- 1" collection_of_5 2 no_spare "()" heap_of_5 RangeError]
      Split_panics_out_of_range [of 2 collection_of_5 6 no_spare "()" heap_of_5 RangeError]
      Split_panics_out_of_range [of 0 collection_3_of_5 6 no_spare "()" heap_of_5 RangeError]
    by (simp add: c5 c3)
qed

text \<open>
  Claim C4. For a well-formed source collection and indices with
  \<open>0 \<le> start \<le> end \<le> len\<close>, the call returns with a \<^verbatim>\<open>nil\<close> error; the values of
  the result are the values of the source from position \<open>start\<close> up to, not including,
  position \<open>end\<close>, in the same order, \<open>end - start\<close> of them. The source is not changed:
  every array that existed before the call has the contents it had, the result lives in
  an array allocated by the call, and the source shows the same values afterwards.
\<close>

theorem Split_valid_range:
  assumes "wf_slice h (SortedPrivateSectorInfo_Values c)"
    and "0 \<le> start" and "start \<le> end'"
    and "end' \<le> int (sl_len (SortedPrivateSectorInfo_Values c))"
  shows "case SplitSortedPrivateSectorInfo grow ctx h c start end' of
           Inl p \<Rightarrow> False
         | Inr (h', r, err) \<Rightarrow>
             err = None \<and>
             elems h' (SortedPrivateSectorInfo_Values r) =
               take (nat (end' - start))
                 (drop (nat start) (elems h (SortedPrivateSectorInfo_Values c))) \<and>
             length (elems h' (SortedPrivateSectorInfo_Values r)) = nat (end' - start) \<and>
             take (length h) h' = h \<and>
             length h \<le> sl_arr (SortedPrivateSectorInfo_Values r) \<and>
             elems h' (SortedPrivateSectorInfo_Values c) =
               elems h (SortedPrivateSectorInfo_Values c)"
proof -
  let ?s = "private_f c"
  let ?new = "\<lparr>sl_arr = length h, sl_off = 0, sl_len = 0, sl_cap = 0\<rparr>"
  from assms have wf: "wf_slice h ?s" "sl_len ?s \<le> sl_cap ?s"
    by (simp_all add: wf_slice_def SortedPrivateSectorInfo_Values_def)
  obtain sub where sub: "slice_expr ?s start end' = Inr sub"
    and el: "elems (h @ [[]]) sub =
               take (nat (end' - start)) (drop (nat start) (elems (h @ [[]]) ?s))"
    using elems_slice_expr [of start end' ?s "h @ [[]]"] assms wf
    by (auto simp: SortedPrivateSectorInfo_Values_def)
  obtain h1 r where app: "go_append grow (h @ [[]]) ?new (elems (h @ [[]]) sub) = (h1, r)"
    by (cases "go_append grow (h @ [[]]) ?new (elems (h @ [[]]) sub)")
  note fr = go_append_fresh [OF app]
  have keep: "elems h1 ?s = elems h ?s"
  proof -
    have "h1 = take (length h) h1 @ drop (length h) h1" by simp
    then have "h1 = h @ drop (length h) h1" using fr by simp
    then show ?thesis using elems_heap_append [OF wf(1)] by metis
  qed
  have n: "length (elems h ?s) = sl_len ?s"
    using assms(1) by (simp add: length_elems SortedPrivateSectorInfo_Values_def)
  have ln: "min (sl_len ?s - nat start) (nat (end' - start)) = nat (end' - start)"
    using assms by (simp add: SortedPrivateSectorInfo_Values_def)
  show ?thesis
    using sub app fr el keep wf n ln
    by (simp add: SplitSortedPrivateSectorInfo_def make0_def SortedPrivateSectorInfo_Values_def
        elems_heap_append)
qed

theorem Split_valid_range_witness:
  "wf_slice heap_of_5 (SortedPrivateSectorInfo_Values collection_of_5) \<and>
   (case SplitSortedPrivateSectorInfo no_spare () heap_of_5 collection_of_5 2 4 of
      Inl p \<Rightarrow> False
    | Inr (h', r, err) \<Rightarrow>
        err = None \<and> elems h' (SortedPrivateSectorInfo_Values r) = [sector 12, sector 13] \<and>
        length (elems h' (SortedPrivateSectorInfo_Values r)) = 2)"
proof -
  have wf: "wf_slice heap_of_5 (SortedPrivateSectorInfo_Values collection_of_5)"
    by (simp add: wf_slice_def heap_of_5_def collection_of_5_def SortedPrivateSectorInfo_Values_def)
  have el: "elems heap_of_5 (SortedPrivateSectorInfo_Values collection_of_5) =
     [sector 10, sector 11, sector 12, sector 13, sector 14]"
    by (simp add: elems_def heap_of_5_def collection_of_5_def SortedPrivateSectorInfo_Values_def)
  have ln: "sl_len (SortedPrivateSectorInfo_Values collection_of_5) = 5"
    by (simp add: collection_of_5_def SortedPrivateSectorInfo_Values_def)
  show ?thesis
    using wf Split_valid_range [OF wf, of 2 4 no_spare "()"]
    by (auto simp: el ln split: sum.splits)
qed

subsection \<open>Sorting by content identifier\<close>

text \<open>
  \<open>bytes_Compare\<close> decides the lexicographic order of byte lists, the order that
  \<open>List_Lexorder\<close> puts on lists over a linear order.
\<close>

lemma bytes_Compare_lex:
  "bytes_Compare xs ys = (if xs < ys then - 1 else if xs = ys then 0 else 1)"
  by (induction xs ys rule: bytes_Compare.induct) auto

lemma Compare_le: "bytes_Compare xs ys \<le> 0 \<longleftrightarrow> xs \<le> ys"
  by (auto simp: bytes_Compare_lex)

lemma Compare_less: "bytes_Compare xs ys = - 1 \<longleftrightarrow> xs < ys"
  by (auto simp: bytes_Compare_lex)

lemma fn_less: "fn a b \<longleftrightarrow> cid_bytes a < cid_bytes b"
  by (simp add: fn_def Compare_less)

lemma fn_eq: "fn = (\<lambda>a b. cid_bytes a < cid_bytes b)"
  by (intro ext) (simp add: fn_less)

lemma elems_sort_Slice:
  assumes "wf_slice h x" and "length (srt lt (elems h x)) = sl_len x"
  shows "elems (sort_Slice srt h x lt) x = srt lt (elems h x)"
proof (cases "sl_cap x = 0")
  case True
  with assms have "sl_len x = 0" by (simp add: wf_slice_def)
  with assms(2) show ?thesis by (simp add: elems_def)
next
  case False
  with assms show ?thesis
    by (simp add: elems_def sort_Slice_def wf_slice_def)
qed

lemma sorts_length: "sorts srt lt \<Longrightarrow> length (srt lt xs) = length xs"
  by (metis sorts_def mset_eq_length)

lemma sorted_keys:
  assumes "sorts srt fn"
  shows "sorted (map cid_bytes (srt fn xs))"
proof -
  have "sorted_wrt (\<lambda>a b. \<not> fn b a) (srt fn xs)"
    using assms by (simp add: sorts_def)
  then have "sorted_wrt (\<lambda>a b. cid_bytes a \<le> cid_bytes b) (srt fn xs)"
    by (simp add: fn_less not_less)
  then show ?thesis by (simp add: sorted_map)
qed

text \<open>The insertion sort keeps the promise of \<^verbatim>\<open>sort.Slice\<close> for the closure \<open>fn\<close>.\<close>

lemma mset_insert_less: "mset (insert_less lt x xs) = add_mset x (mset xs)"
  by (induction xs) auto

lemma mset_insertion_sort: "mset (insertion_sort lt xs) = mset xs"
  by (induction xs) (auto simp: mset_insert_less)

lemma set_insert_less: "set (insert_less lt x xs) = insert x (set xs)"
  by (induction xs) auto

lemma sorted_insert_less:
  fixes k :: "'a \<Rightarrow> 'b::linorder"
  shows "sorted_wrt (\<lambda>a b. k a \<le> k b) xs \<Longrightarrow>
         sorted_wrt (\<lambda>a b. k a \<le> k b) (insert_less (\<lambda>a b. k a < k b) x xs)"
  by (induction xs) (auto simp: set_insert_less)

lemma sorted_insertion_sort:
  fixes k :: "'a \<Rightarrow> 'b::linorder"
  shows "sorted_wrt (\<lambda>a b. k a \<le> k b) (insertion_sort (\<lambda>a b. k a < k b) xs)"
  by (induction xs) (auto simp: sorted_insert_less)

lemma insertion_sort_sorts: "sorts insertion_sort fn"
  unfolding sorts_def
  using sorted_insertion_sort [of cid_bytes]
  by (simp add: mset_insertion_sort fn_eq not_less)

text \<open>
  Claim C5. Let \<open>srt\<close> keep the promise of \<^verbatim>\<open>sort.Slice\<close> for the closure \<open>fn\<close>, and let
  the argument be a well-formed slice. Then the values of the collection that
  \<^verbatim>\<open>newSortedPublicSectorInfo\<close> returns are in ascending byte-lexicographic order of
  their content identifiers (\<^verbatim>\<open>bytes.Compare\<close> of an earlier with a later one is never
  \<open>1\<close>), and they are a rearrangement of the input: the same records, each as often as
  in the input, so the same number of them. An input with the identifiers \<open>b, a, c\<close>
  comes out with the identifiers in the order \<open>a, b, c\<close>.
\<close>

theorem newSortedPublicSectorInfo_sorted_perm:
  assumes "sorts srt fn" and "wf_slice h sectorInfo"
  shows "case newSortedPublicSectorInfo srt h sectorInfo of
           (h', c) \<Rightarrow>
             sorted_wrt (\<lambda>a b. bytes_Compare (cid_bytes a) (cid_bytes b) \<le> 0)
               (elems h' (SortedPublicSectorInfo_Values c)) \<and>
             mset (elems h' (SortedPublicSectorInfo_Values c)) = mset (elems h sectorInfo) \<and>
             length (elems h' (SortedPublicSectorInfo_Values c)) = length (elems h sectorInfo) \<and>
             (map cid_bytes (elems h sectorInfo) = [id_b, id_a, id_c] \<longrightarrow>
              map cid_bytes (elems h' (SortedPublicSectorInfo_Values c)) = [id_a, id_b, id_c])"
proof -
  let ?xs = "elems h sectorInfo"
  let ?ys = "srt fn ?xs"
  have len: "length ?ys = sl_len sectorInfo"
    using assms by (simp add: sorts_length length_elems)
  have out: "elems (sort_Slice srt h sectorInfo fn) sectorInfo = ?ys"
    using assms(2) len by (rule elems_sort_Slice)
  have perm: "mset ?ys = mset ?xs"
    using assms(1) by (simp add: sorts_def)
  have srt: "sorted (map cid_bytes ?ys)"
    using assms(1) by (rule sorted_keys)
  then have cmp: "sorted_wrt (\<lambda>a b. bytes_Compare (cid_bytes a) (cid_bytes b) \<le> 0) ?ys"
    by (simp add: sorted_map Compare_le)
  have scen: "map cid_bytes ?ys = [id_a, id_b, id_c]"
    if "map cid_bytes ?xs = [id_b, id_a, id_c]"
  proof -
    have "mset (map cid_bytes ?ys) = mset [id_b, id_a, id_c]"
      using perm that by (metis mset_map)
    then have "sort [id_b, id_a, id_c] = map cid_bytes ?ys"
      using srt by (rule properties_for_sort)
    then show ?thesis by (simp add: id_a_def id_b_def id_c_def)
  qed
  show ?thesis
    using cmp perm scen
    by (simp add: newSortedPublicSectorInfo_def SortedPublicSectorInfo_Values_def out
        sorts_length [OF assms(1)])
qed

theorem newSortedPublicSectorInfo_sorted_perm_witness:
  "sorts insertion_sort fn \<and> wf_slice heap_bac slice_of_3 \<and>
   map cid_bytes (elems heap_bac slice_of_3) = [id_b, id_a, id_c] \<and>
   (case newSortedPublicSectorInfo insertion_sort heap_bac slice_of_3 of
      (h', c) \<Rightarrow>
        elems h' (SortedPublicSectorInfo_Values c) =
          [public_of id_a, public_of id_b, public_of id_c])"
proof -
  have wf: "wf_slice heap_bac slice_of_3"
    by (simp add: wf_slice_def heap_bac_def slice_of_3_def)
  have inp: "map cid_bytes (elems heap_bac slice_of_3) = [id_b, id_a, id_c]"
    by (simp add: elems_def heap_bac_def slice_of_3_def cid_bytes_def public_of_def Bytes_def)
  have run: "newSortedPublicSectorInfo insertion_sort heap_bac slice_of_3 =
    ([[public_of id_a, public_of id_b, public_of id_c]], \<lparr>public_f = slice_of_3\<rparr>)"
    by (simp add: newSortedPublicSectorInfo_def sort_Slice_def elems_def heap_bac_def
        slice_of_3_def fn_def cid_bytes_def public_of_def Bytes_def id_a_def id_b_def id_c_def)
  have res: "elems [[public_of id_a, public_of id_b, public_of id_c]]
      (SortedPublicSectorInfo_Values \<lparr>public_f = slice_of_3\<rparr>) =
      [public_of id_a, public_of id_b, public_of id_c]"
    by (simp add: elems_def SortedPublicSectorInfo_Values_def slice_of_3_def)
  show ?thesis
    using newSortedPublicSectorInfo_sorted_perm [OF insertion_sort_sorts wf] wf inp
      insertion_sort_sorts
    by (simp add: run res)
qed

text \<open>
  The public half of the idempotence property: on an input that is in strictly
  ascending order of content identifiers (sorted, no identifier twice), the public build
  returns the input sequence.
\<close>

lemma newSortedPublicSectorInfo_sorted_input:
  assumes "sorts srt fn" and "wf_slice h sectorInfo"
    and "sorted_wrt (\<lambda>a b. bytes_Compare (cid_bytes a) (cid_bytes b) = - 1) (elems h sectorInfo)"
  shows "case newSortedPublicSectorInfo srt h sectorInfo of
           (h', c) \<Rightarrow> elems h' (SortedPublicSectorInfo_Values c) = elems h sectorInfo"
proof -
  let ?xs = "elems h sectorInfo"
  let ?ys = "srt fn ?xs"
  have len: "length ?ys = sl_len sectorInfo"
    using assms by (simp add: sorts_length length_elems)
  have out: "elems (sort_Slice srt h sectorInfo fn) sectorInfo = ?ys"
    using assms(2) len by (rule elems_sort_Slice)
  have perm: "mset ?ys = mset ?xs"
    using assms(1) by (simp add: sorts_def)
  have "sorted_wrt (\<lambda>a b. cid_bytes a < cid_bytes b) ?xs"
    using assms(3) by (simp add: Compare_less)
  then have "sorted_wrt (<) (map cid_bytes ?xs)"
    by (simp add: sorted_wrt_map)
  then have sx: "sorted (map cid_bytes ?xs)" and dx: "distinct (map cid_bytes ?xs)"
    by (simp_all add: strict_sorted_iff)
  have "mset (map cid_bytes ?ys) = mset (map cid_bytes ?xs)"
    using perm by (metis mset_map)
  then have "sort (map cid_bytes ?xs) = map cid_bytes ?ys"
    using sorted_keys [OF assms(1)] by (rule properties_for_sort)
  then have keys: "map cid_bytes ?ys = map cid_bytes ?xs"
    using sx by (simp add: sort_key_id_if_sorted)
  have "set ?ys = set ?xs"
    using perm by (rule mset_eq_setD)
  moreover have "inj_on cid_bytes (set ?xs)"
    using dx by (simp add: distinct_map)
  ultimately have "?ys = ?xs"
    using keys by (simp add: inj_on_map_eq_map)
  then show ?thesis
    by (simp add: newSortedPublicSectorInfo_def SortedPublicSectorInfo_Values_def out)
qed

end
